theory Spec2Isabelle
  imports Complex_Main "HOL-Library.Word" "HOL-Library.Sublist"
begin

section \<open>JavaScript values as the chat relay sees them\<close>

text \<open>
  A JavaScript string is a sequence of UTF-16 code units; \<open>trim\<close>, \<open>slice\<close>,
  \<open>length\<close> and \<open>includes\<close> all work on code units. \<open>js\<close> turns an ASCII literal
  into such a sequence.
\<close>

type_synonym jsstring = "16 word list"

definition js :: "string \<Rightarrow> jsstring" where
  "js s = map (\<lambda>c. of_nat (of_char c)) s"

text \<open>
  The values that reach the handler come from \<open>express.json()\<close> and from
  \<open>response.json()\<close>, so they are JSON values, plus \<open>undefined\<close> for a property that
  is not there. A number is modelled by its value; the handler only ever tests a number
  for truthiness, and JSON cannot denote \<open>NaN\<close>. The association list of an object is
  the parsed object: lookup takes the first entry of a key.
\<close>

datatype jsval =
    JUndefined
  | JNull
  | JBool bool
  | JNum rat
  | JStr jsstring
  | JArr "jsval list"
  | JObj "(jsstring \<times> jsval) list"

fun truthy :: "jsval \<Rightarrow> bool" where
  "truthy JUndefined = False"
| "truthy JNull = False"
| "truthy (JBool b) = b"
| "truthy (JNum r) = (r \<noteq> 0)"
| "truthy (JStr s) = (s \<noteq> [])"
| "truthy (JArr xs) = True"
| "truthy (JObj kvs) = True"

datatype js_error =
    Error (message: jsstring)
  | TypeError (message: jsstring)
  | SyntaxError (message: jsstring)

text \<open>
  Reading a property \<open>v.k\<close>. The names read in this program (\<open>messages\<close>,
  \<open>systemPrompt\<close>, \<open>role\<close>, \<open>content\<close>, \<open>usage\<close>, \<open>model\<close>, \<open>text\<close>) are own
  properties of objects only: on a string, array, number or boolean they are
  \<open>undefined\<close>. On \<open>null\<close> and \<open>undefined\<close> the read throws a \<open>TypeError\<close>
  (the texts of the \<open>TypeError\<close>s are V8's).
\<close>

fun own_prop :: "jsstring \<Rightarrow> jsval \<Rightarrow> jsval" where
  "own_prop k (JObj kvs) = (case map_of kvs k of None \<Rightarrow> JUndefined | Some v \<Rightarrow> v)"
| "own_prop k v = JUndefined"

definition cannot_read :: "jsstring \<Rightarrow> jsstring \<Rightarrow> js_error" where
  "cannot_read what k =
     TypeError (js ''Cannot read properties of '' @ what @ js '' (reading '' @ [0x27] @ k @ [0x27] @ js '')'')"

fun get_prop :: "jsval \<Rightarrow> jsstring \<Rightarrow> js_error + jsval" where
  "get_prop JNull k = Inl (cannot_read (js ''null'') k)"
| "get_prop JUndefined k = Inl (cannot_read (js ''undefined'') k)"
| "get_prop v k = Inr (own_prop k v)"

text \<open>\<open>v.length\<close> for a value that is neither \<open>null\<close> nor \<open>undefined\<close>.\<close>

fun length_of :: "jsval \<Rightarrow> jsval" where
  "length_of (JArr xs) = JNum (of_nat (length xs))"
| "length_of (JStr s) = JNum (of_nat (length s))"
| "length_of (JObj kvs) = own_prop (js ''length'') (JObj kvs)"
| "length_of v = JUndefined"

text \<open>\<open>v[0]\<close> for a value that is neither \<open>null\<close> nor \<open>undefined\<close>.\<close>

fun index0 :: "jsval \<Rightarrow> jsval" where
  "index0 (JArr xs) = (case xs of [] \<Rightarrow> JUndefined | x # _ \<Rightarrow> x)"
| "index0 (JStr s) = (case s of [] \<Rightarrow> JUndefined | c # _ \<Rightarrow> JStr [c])"
| "index0 (JObj kvs) = own_prop (js ''0'') (JObj kvs)"
| "index0 v = JUndefined"

fun get_index0 :: "jsval \<Rightarrow> js_error + jsval" where
  "get_index0 JNull = Inl (cannot_read (js ''null'') (js ''0''))"
| "get_index0 JUndefined = Inl (cannot_read (js ''undefined'') (js ''0''))"
| "get_index0 v = Inr (index0 v)"

text \<open>\<open>String.prototype.includes\<close>: the needle occurs as a contiguous run.\<close>

fun str_includes :: "jsstring \<Rightarrow> jsstring \<Rightarrow> bool" where
  "str_includes [] needle = (needle = [])"
| "str_includes (c # cs) needle = (prefix needle (c # cs) \<or> str_includes cs needle)"

text \<open>A number in a template literal: decimal digits, with a sign when negative.\<close>

fun dec :: "nat \<Rightarrow> jsstring" where
  "dec n = (if n < 10 then [of_nat (48 + n)]
            else dec (n div 10) @ [of_nat (48 + n mod 10)])"

definition show_int :: "int \<Rightarrow> jsstring" where
  "show_int i = (if i < 0 then js ''-'' @ dec (nat (- i)) else dec (nat i))"


section \<open>Utility functions\<close>

subsection \<open>sanitizeInput\<close>

text \<open>
  \<open>String.prototype.trim\<close> removes the ECMAScript \<open>WhiteSpace\<close> and \<open>LineTerminator\<close>
  code units from both ends.
\<close>

definition is_ws :: "16 word \<Rightarrow> bool" where
  "is_ws c \<longleftrightarrow>
     c = 0x9 \<or> c = 0xA \<or> c = 0xB \<or> c = 0xC \<or> c = 0xD \<or> c = 0x20 \<or> c = 0xA0 \<or>
     c = 0x1680 \<or> (0x2000 \<le> c \<and> c \<le> 0x200A) \<or> c = 0x2028 \<or> c = 0x2029 \<or>
     c = 0x202F \<or> c = 0x205F \<or> c = 0x3000 \<or> c = 0xFEFF"

definition trim :: "jsstring \<Rightarrow> jsstring" where
  "trim s = rev (dropWhile is_ws (rev (dropWhile is_ws s)))"

text \<open>
  \<^verbatim>\<open>
  function sanitizeInput(text) {
      if (typeof text !== 'string') return '';
      return text.trim().slice(0, 4000);
  }
  \<close>
\<close>

fun sanitizeInput :: "jsval \<Rightarrow> jsstring" where
  "sanitizeInput (JStr text) = take 4000 (trim text)"
| "sanitizeInput v = []"

definition no_leading_ws :: "jsstring \<Rightarrow> bool" where
  "no_leading_ws s \<longleftrightarrow> s = [] \<or> \<not> is_ws (hd s)"

definition no_trailing_ws :: "jsstring \<Rightarrow> bool" where
  "no_trailing_ws s \<longleftrightarrow> s = [] \<or> \<not> is_ws (last s)"

subsection \<open>validateMessages\<close>

definition InvalidFormat :: js_error where
  "InvalidFormat = Error (js ''Messages deve essere un array'')"

text \<open>The letter after \<open>pu\<close> on line 57 is o with grave accent, code unit \<open>0xF2\<close>.\<close>

definition EmptyConversation :: js_error where
  "EmptyConversation = Error (js ''Messages non pu'' @ [0xF2] @ js '' essere vuoto'')"

definition TooManyMessages :: js_error where
  "TooManyMessages = Error (js ''Troppe messaggi nella conversazione'')"

definition MalformedMessage :: js_error where
  "MalformedMessage = Error (js ''Formato messaggio non valido'')"

definition InvalidRole :: js_error where
  "InvalidRole = Error (js ''Role non valido'')"

text \<open>
  The body of the \<open>for (const msg of messages)\<close> loop, message by message:
  \<^verbatim>\<open>
  if (!msg.role || !msg.content) throw new Error('Formato messaggio non valido');
  if (!['user', 'assistant'].includes(msg.role)) throw new Error('Role non valido');
  \<close>
\<close>

fun check_each :: "jsval list \<Rightarrow> js_error + bool" where
  "check_each [] = Inr True"
| "check_each (msg # rest) =
     (case get_prop msg (js ''role'') of
        Inl e \<Rightarrow> Inl e
      | Inr r \<Rightarrow>
          if \<not> truthy r then Inl MalformedMessage
          else (case get_prop msg (js ''content'') of
                  Inl e \<Rightarrow> Inl e
                | Inr c \<Rightarrow>
                    if \<not> truthy c then Inl MalformedMessage
                    else if r \<noteq> JStr (js ''user'') \<and> r \<noteq> JStr (js ''assistant'')
                      then Inl InvalidRole
                    else check_each rest))"

fun validateMessages :: "jsval \<Rightarrow> js_error + bool" where
  "validateMessages (JArr messages) =
     (if length messages = 0 then Inl EmptyConversation
      else if length messages > 50 then Inl TooManyMessages
      else check_each messages)"
| "validateMessages v = Inl InvalidFormat"


subsection \<open>logMetrics\<close>

text \<open>
  The record that one call of \<open>logMetrics\<close> writes to the console, and the two parts
  of the Express request that the handler reads.
\<close>

record metrics =
  timestamp :: jsstring
  ip :: jsstring
  success :: bool
  responseTime :: jsstring
  messagesCount :: jsval

record request =
  req_ip :: jsstring
  req_body :: jsval

text \<open>\<open>req.body.messages?.length || 0\<close>\<close>

definition count_messages :: "jsval \<Rightarrow> js_error + jsval" where
  "count_messages body =
     (case get_prop body (js ''messages'') of
        Inl e \<Rightarrow> Inl e
      | Inr m \<Rightarrow>
          let len = (if m = JNull \<or> m = JUndefined then JUndefined else length_of m)
          in Inr (if truthy len then len else JNum 0))"

text \<open>
  \<open>logMetrics\<close> writes one record to the console, or throws before writing when
  \<open>req.body\<close> cannot be read. \<open>now\<close> is the clock reading of \<open>new Date()\<close>.
\<close>

definition logMetrics ::
  "(int \<Rightarrow> jsstring) \<Rightarrow> int \<Rightarrow> request \<Rightarrow> int \<Rightarrow> bool \<Rightarrow> js_error + metrics" where
  "logMetrics render now req elapsed ok =
     (case count_messages (req_body req) of
        Inl e \<Rightarrow> Inl e
      | Inr n \<Rightarrow>
          Inr \<lparr>timestamp = render now, ip = req_ip req, success = ok,
               responseTime = show_int elapsed @ js ''ms'', messagesCount = n\<rparr>)"


section \<open>POST /api/chat\<close>

record CONFIG =
  ANTHROPIC_API_KEY :: jsstring
  ANTHROPIC_API_URL :: jsstring
  MODEL :: jsstring
  MAX_TOKENS :: int

record message =
  role :: jsval
  content :: jsstring

record upstream_request =
  model :: jsstring
  max_tokens :: int
  messages :: "message list"
  system :: "jsstring option"

record fetch_call =
  url :: jsstring
  x_api_key :: jsstring
  anthropic_version :: jsstring
  request_body :: upstream_request

text \<open>
  What \<open>fetch\<close> does: it rejects, or it resolves to a response with a status whose
  \<open>json()\<close> either rejects or yields the parsed body.
\<close>

datatype upstream =
    FetchRejects js_error
  | FetchResponse nat "js_error + jsval"

text \<open>
  What the handler takes from its surroundings: the clock (\<open>Date_now k\<close> is the
  \<open>k\<close>-th reading taken while the request is handled, reading 0 being \<open>startTime\<close>),
  the rendering \<open>toISOString\<close> of a time, \<open>JSON.stringify\<close>, the upstream service
  behind \<open>fetch\<close>, and \<open>process.env.NODE_ENV\<close>.
\<close>

record runtime =
  Date_now :: "nat \<Rightarrow> int"
  toISOString :: "int \<Rightarrow> jsstring"
  JSON_stringify :: "jsval \<Rightarrow> jsstring"
  fetch :: "fetch_call \<Rightarrow> upstream"
  NODE_ENV :: jsval

definition response_ok :: "nat \<Rightarrow> bool" where
  "response_ok st \<longleftrightarrow> 200 \<le> st \<and> st \<le> 299"

text \<open>
  The JSON written to the caller: \<open>{ error, details }\<close> or
  \<open>{ success: true, message, usage, model }\<close>; a field that is \<open>undefined\<close> is left
  out when the object is serialised.
\<close>

datatype payload =
    ErrorJson jsstring jsval
  | ChatJson jsval jsval jsval

record response =
  status :: nat
  json :: payload

text \<open>
  \<^verbatim>\<open>
  const sanitizedMessages = messages.map(msg => ({
      role: msg.role,
      content: sanitizeInput(msg.content)
  }));
  \<close>
\<close>

fun sanitize_each :: "jsval list \<Rightarrow> js_error + message list" where
  "sanitize_each [] = Inr []"
| "sanitize_each (msg # rest) =
     (case get_prop msg (js ''role'') of
        Inl e \<Rightarrow> Inl e
      | Inr r \<Rightarrow>
          (case get_prop msg (js ''content'') of
             Inl e \<Rightarrow> Inl e
           | Inr c \<Rightarrow>
               (case sanitize_each rest of
                  Inl e \<Rightarrow> Inl e
                | Inr ms \<Rightarrow> Inr (\<lparr>role = r, content = sanitizeInput c\<rparr> # ms))))"

fun sanitizedMessages :: "jsval \<Rightarrow> js_error + message list" where
  "sanitizedMessages (JArr msgs) = sanitize_each msgs"
| "sanitizedMessages v = Inl (TypeError (js ''messages.map is not a function''))"

text \<open>
  \<^verbatim>\<open>
  const requestBody = { model: CONFIG.MODEL, max_tokens: CONFIG.MAX_TOKENS,
                        messages: sanitizedMessages };
  if (systemPrompt) { requestBody.system = sanitizeInput(systemPrompt); }
  \<close>
\<close>

definition requestBody :: "CONFIG \<Rightarrow> message list \<Rightarrow> jsval \<Rightarrow> upstream_request" where
  "requestBody cfg sanitized systemPrompt =
     (let rb = \<lparr>model = MODEL cfg, max_tokens = MAX_TOKENS cfg,
                messages = sanitized, system = None\<rparr>
      in if truthy systemPrompt then rb\<lparr>system := Some (sanitizeInput systemPrompt)\<rparr>
         else rb)"

text \<open>
  Lines 104 to 130 of the handler: the body is taken apart, checked and turned into the
  upstream call. The outcome is a thrown error, the early 400 reply, or the call to make.
\<close>

datatype prepared = Throws js_error | Returns response | Calls fetch_call

definition cannot_destructure :: "jsstring \<Rightarrow> js_error" where
  "cannot_destructure what =
     TypeError (js ''Cannot destructure property '' @ [0x27] @ js ''messages'' @ [0x27]
                @ js '' of '' @ [0x27] @ js ''req.body'' @ [0x27] @ js '' as it is ''
                @ what @ js ''.'')"

text \<open>\<open>const { messages, systemPrompt } = req.body\<close>\<close>

fun destructure :: "jsval \<Rightarrow> js_error + jsval \<times> jsval" where
  "destructure JNull = Inl (cannot_destructure (js ''null''))"
| "destructure JUndefined = Inl (cannot_destructure (js ''undefined''))"
| "destructure body =
     Inr (own_prop (js ''messages'') body, own_prop (js ''systemPrompt'') body)"

definition prepare :: "CONFIG \<Rightarrow> jsval \<Rightarrow> prepared" where
  "prepare cfg body =
     (case destructure body of
        Inl e \<Rightarrow> Throws e
      | Inr (msgs, systemPrompt) \<Rightarrow>
          if \<not> truthy msgs
          then Returns \<lparr>status = 400, json = ErrorJson (js ''Parametro messages mancante'') JUndefined\<rparr>
          else
     (case validateMessages msgs of
        Inl e \<Rightarrow> Throws e
      | Inr _ \<Rightarrow>
     (case sanitizedMessages msgs of
        Inl e \<Rightarrow> Throws e
      | Inr sanitized \<Rightarrow>
          Calls \<lparr>url = ANTHROPIC_API_URL cfg, x_api_key = ANTHROPIC_API_KEY cfg,
                 anthropic_version = js ''2023-06-01'',
                 request_body = requestBody cfg sanitized systemPrompt\<rparr>)))"

text \<open>
  Lines 133 to 148: the call, the \<open>response.ok\<close> test and the parsed body.
  \<^verbatim>\<open>
  if (!response.ok) {
      const errorData = await response.json();
      throw new Error(`API Error: ${response.status} - ${JSON.stringify(errorData)}`);
  }
  const data = await response.json();
  \<close>
\<close>

definition api_error :: "runtime \<Rightarrow> nat \<Rightarrow> jsval \<Rightarrow> js_error" where
  "api_error rt st errorData =
     Error (js ''API Error: '' @ dec st @ js '' - '' @ JSON_stringify rt errorData)"

definition receive :: "runtime \<Rightarrow> fetch_call \<Rightarrow> js_error + jsval" where
  "receive rt call =
     (case fetch rt call of
        FetchRejects e \<Rightarrow> Inl e
      | FetchResponse st parsed \<Rightarrow>
          if \<not> response_ok st
          then (case parsed of
                  Inl e \<Rightarrow> Inl e
                | Inr errorData \<Rightarrow> Inl (api_error rt st errorData))
          else parsed)"

text \<open>
  Lines 155 to 160, the reply built from the upstream body; \<open>data.content[0].text\<close>
  throws when \<open>data\<close>, \<open>data.content\<close> or its first element is \<open>null\<close> or
  \<open>undefined\<close>.
\<close>

definition first_text :: "jsval \<Rightarrow> js_error + jsval" where
  "first_text data =
     (case get_prop data (js ''content'') of
        Inl e \<Rightarrow> Inl e
      | Inr c \<Rightarrow>
          (case get_index0 c of
             Inl e \<Rightarrow> Inl e
           | Inr block \<Rightarrow> get_prop block (js ''text'')))"

definition chat_json :: "jsval \<Rightarrow> js_error + response" where
  "chat_json data =
     (case first_text data of
        Inl e \<Rightarrow> Inl e
      | Inr text \<Rightarrow>
          (case get_prop data (js ''usage'') of
             Inl e \<Rightarrow> Inl e
           | Inr usage \<Rightarrow>
               (case get_prop data (js ''model'') of
                  Inl e \<Rightarrow> Inl e
                | Inr mdl \<Rightarrow> Inr \<lparr>status = 200, json = ChatJson text usage mdl\<rparr>)))"

text \<open>
  What one request leaves behind: the reply (or the error that escapes the handler when
  the \<open>catch\<close> block itself throws), the metrics records written, and the upstream
  calls made.
\<close>

datatype outcome = Replied response | Unhandled js_error

record result =
  outcome :: outcome
  logged :: "metrics list"
  fetched :: "fetch_call list"

text \<open>
  The \<open>try\<close> block: how it ends (a reply, or an error for \<open>catch\<close>), with the records
  and calls so far.
\<close>

datatype completion = Done response | Caught js_error

definition try_block ::
  "runtime \<Rightarrow> CONFIG \<Rightarrow> request \<Rightarrow> completion \<times> metrics list \<times> fetch_call list" where
  "try_block rt cfg req =
     (case prepare cfg (req_body req) of
        Throws e \<Rightarrow> (Caught e, [], [])
      | Returns r \<Rightarrow> (Done r, [], [])
      | Calls call \<Rightarrow>
          (case receive rt call of
             Inl e \<Rightarrow> (Caught e, [], [call])
           | Inr data \<Rightarrow>
               (case logMetrics (toISOString rt) (Date_now rt 2) req
                       (Date_now rt 1 - Date_now rt 0) True of
                  Inl e \<Rightarrow> (Caught e, [], [call])
                | Inr m \<Rightarrow>
                    (case chat_json data of
                       Inl e \<Rightarrow> (Caught e, [m], [call])
                     | Inr r \<Rightarrow> (Done r, [m], [call])))))"

text \<open>
  The \<open>catch\<close> block: one more metrics record, then the reply chosen from the error's
  message. \<open>k\<close> is the number of clock readings taken so far.
\<close>

definition error_reply :: "runtime \<Rightarrow> js_error \<Rightarrow> response" where
  "error_reply rt e =
     (if str_includes (message e) (js ''API Error: 401'')
      then \<lparr>status = 500, json = ErrorJson (js ''Errore di autenticazione con il servizio AI'') JUndefined\<rparr>
      else if str_includes (message e) (js ''API Error: 429'')
      then \<lparr>status = 429, json = ErrorJson (js ''Troppi richieste al servizio AI. Riprova tra poco.'') JUndefined\<rparr>
      else \<lparr>status = 500,
            json = ErrorJson (js ''Errore del server. Riprova tra poco.'')
                     (if NODE_ENV rt = JStr (js ''development'') then JStr (message e)
                      else JUndefined)\<rparr>)"

definition catch_block ::
  "runtime \<Rightarrow> request \<Rightarrow> js_error \<Rightarrow> nat \<Rightarrow> outcome \<times> metrics list" where
  "catch_block rt req e k =
     (case logMetrics (toISOString rt) (Date_now rt (k + 1)) req
             (Date_now rt k - Date_now rt 0) False of
        Inl e' \<Rightarrow> (Unhandled e', [])
      | Inr m \<Rightarrow> (Replied (error_reply rt e), [m]))"

definition chat :: "runtime \<Rightarrow> CONFIG \<Rightarrow> request \<Rightarrow> result" where
  "chat rt cfg req =
     (case try_block rt cfg req of
        (Done r, ms, cs) \<Rightarrow> \<lparr>outcome = Replied r, logged = ms, fetched = cs\<rparr>
      | (Caught e, ms, cs) \<Rightarrow>
          (case catch_block rt req e (1 + 2 * length ms) of
             (out, ms') \<Rightarrow> \<lparr>outcome = out, logged = ms @ ms', fetched = cs\<rparr>))"


section \<open>Inputs used in the examples\<close>

text \<open>The letter \<open>a\<close>, 4000 spaces, the letter \<open>b\<close>: 4002 code units, nothing to trim.\<close>

definition long_text :: jsstring where
  "long_text = 0x61 # replicate 4000 0x20 @ [0x62]"

text \<open>The configuration the source falls back to when the environment sets nothing else.\<close>

definition default_config :: CONFIG where
  "default_config =
     \<lparr>ANTHROPIC_API_KEY = js ''sk-test'',
      ANTHROPIC_API_URL = js ''https://api.anthropic.com/v1/messages'',
      MODEL = js ''claude-sonnet-4-20250514'',
      MAX_TOKENS = 1024\<rparr>"

definition hello :: jsval where
  "hello = JObj [(js ''role'', JStr (js ''user'')), (js ''content'', JStr (js '' hi ''))]"


definition request_of :: "(jsstring \<times> jsval) list \<Rightarrow> request" where
  "request_of kvs = \<lparr>req_ip = js ''::1'', req_body = JObj kvs\<rparr>"

text \<open>An upstream 429 whose body is not JSON, as a gateway in front of the service sends it.\<close>

definition gateway_429 :: upstream where
  "gateway_429 =
     FetchResponse 429 (Inl (SyntaxError (js ''Unexpected token < in JSON at position 0'')))"

text \<open>
  A runtime with a mocked upstream, for running the handler on concrete requests: the
  clock advances by one millisecond per reading, and the upstream answers every call
  with \<open>u\<close>. Its \<open>JSON.stringify\<close> gives \<open>{}\<close>, which is right for the empty
  object, the only error body the examples send.
\<close>

definition mocked :: "upstream \<Rightarrow> runtime" where
  "mocked u =
     \<lparr>Date_now = (\<lambda>k. 1000 + int k), toISOString = show_int,
      JSON_stringify = (\<lambda>_. js ''{}''), fetch = (\<lambda>_. u),
      NODE_ENV = JStr (js ''production'')\<rparr>"

text \<open>Requests for the examples: a plain one, one that tries to choose the model and the
  token ceiling itself, and one whose \<open>systemPrompt\<close> is the empty string.\<close>

definition plain_request :: request where
  "plain_request = request_of [(js ''messages'', JArr [hello])]"

definition override_request :: request where
  "override_request =
     request_of [(js ''messages'', JArr [hello, hello]),
                 (js ''model'', JStr (js ''other-model'')),
                 (js ''max_tokens'', JNum 999999),
                 (js ''systemPrompt'', JStr (js '' be brief ''))]"

definition blank_prompt_request :: request where
  "blank_prompt_request =
     request_of [(js ''messages'', JArr [hello]), (js ''systemPrompt'', JStr [])]"

text \<open>An upstream 200 whose body is the empty object, and an upstream 429 with the empty
  object as its error body.\<close>

definition empty_reply :: upstream where
  "empty_reply = FetchResponse 200 (Inr (JObj []))"

definition limited_reply :: upstream where
  "limited_reply = FetchResponse 429 (Inr (JObj []))"

text \<open>
  A message as the specification's properties speak of a valid one: a truthy \<open>role\<close>
  that is \<open>"user"\<close> or \<open>"assistant"\<close>, and a truthy \<open>content\<close>.
\<close>

definition valid_message :: "jsval \<Rightarrow> bool" where
  "valid_message m \<longleftrightarrow>
     truthy (own_prop (js ''role'') m)
     \<and> (own_prop (js ''role'') m = JStr (js ''user'')
        \<or> own_prop (js ''role'') m = JStr (js ''assistant''))
     \<and> truthy (own_prop (js ''content'') m)"


section \<open>Properties of the Sanitizer\<close>

lemma length_sanitizeInput: "length (sanitizeInput v) \<le> 4000"
  by (cases v) simp_all

lemma trim_is_prefix: "prefix (trim s) (dropWhile is_ws s)"
proof -
  let ?t = "dropWhile is_ws s"
  have "rev ?t = takeWhile is_ws (rev ?t) @ dropWhile is_ws (rev ?t)" by simp
  then have "?t = rev (dropWhile is_ws (rev ?t)) @ rev (takeWhile is_ws (rev ?t))"
    by (metis rev_append rev_rev_ident)
  then show ?thesis unfolding trim_def by (metis prefixI)
qed

lemma no_leading_ws_dropWhile: "no_leading_ws (dropWhile is_ws s)"
  by (induction s) (auto simp add: no_leading_ws_def)

lemma no_leading_ws_prefix: "prefix xs ys \<Longrightarrow> no_leading_ws ys \<Longrightarrow> no_leading_ws xs"
  by (cases xs; cases ys) (auto simp add: no_leading_ws_def)

lemma no_leading_ws_trim: "no_leading_ws (trim s)"
  using trim_is_prefix no_leading_ws_dropWhile by (rule no_leading_ws_prefix)

lemma no_leading_ws_sanitizeInput: "no_leading_ws (sanitizeInput v)"
proof (cases v)
  case (JStr s)
  have "prefix (take 4000 (trim s)) (trim s)" by (rule take_is_prefix)
  then show ?thesis using JStr no_leading_ws_trim by (simp add: no_leading_ws_prefix)
qed (simp_all add: no_leading_ws_def)

lemma no_trailing_ws_trim: "no_trailing_ws (trim s)"
proof -
  have "no_leading_ws (dropWhile is_ws (rev (dropWhile is_ws s)))"
    by (rule no_leading_ws_dropWhile)
  then show ?thesis
    by (auto simp add: no_trailing_ws_def no_leading_ws_def trim_def last_rev)
qed

lemma dropWhile_no_leading: "no_leading_ws s \<Longrightarrow> dropWhile is_ws s = s"
  by (cases s) (auto simp add: no_leading_ws_def)

lemma trim_fixed:
  assumes "no_leading_ws s" and "no_trailing_ws s"
  shows "trim s = s"
proof -
  from assms(2) have "no_leading_ws (rev s)"
    by (auto simp add: no_trailing_ws_def no_leading_ws_def hd_rev)
  then have "dropWhile is_ws (rev s) = rev s" by (rule dropWhile_no_leading)
  with dropWhile_no_leading[OF assms(1)] show ?thesis by (simp add: trim_def)
qed

lemma dropWhile_replicate_ws:
  "is_ws c \<Longrightarrow> dropWhile is_ws (replicate n c @ ys) = dropWhile is_ws ys"
  by (induction n) simp_all

lemma trim_replicate_ws:
  "is_ws c \<Longrightarrow> \<not> is_ws x \<Longrightarrow> trim (x # replicate n c) = [x]"
  by (simp add: trim_def dropWhile_replicate_ws)

lemma trim_long_text: "trim long_text = long_text"
  by (simp add: trim_def long_text_def is_ws_def)

lemma sanitize_long_text: "sanitizeInput (JStr long_text) = 0x61 # replicate 3999 0x20"
  by (simp add: trim_long_text) (simp add: long_text_def)

lemma sanitize_twice_iff:
  "sanitizeInput (JStr (sanitizeInput x)) = sanitizeInput x \<longleftrightarrow> no_trailing_ws (sanitizeInput x)"
proof
  let ?y = "sanitizeInput x"
  assume eq: "sanitizeInput (JStr ?y) = ?y"
  have "length ?y = length (take 4000 (trim ?y))" using eq by simp
  also have "\<dots> \<le> length (trim ?y)" by simp
  finally have "length ?y \<le> length (trim ?y)" .
  moreover have "prefix (trim ?y) ?y"
    using trim_is_prefix[of ?y] dropWhile_no_leading[OF no_leading_ws_sanitizeInput, of x] by simp
  ultimately have "trim ?y = ?y"
    by (metis prefix_length_le le_antisym prefix_length_prefix prefix_order.order_refl prefix_order.antisym)
  then show "no_trailing_ws ?y" using no_trailing_ws_trim[of ?y] by simp
next
  let ?y = "sanitizeInput x"
  assume "no_trailing_ws ?y"
  then have "trim ?y = ?y" using no_leading_ws_sanitizeInput by (simp add: trim_fixed)
  then show "sanitizeInput (JStr ?y) = ?y" using length_sanitizeInput[of x] by simp
qed

text \<open>
  C3 (as stated, refuted). The text \<open>a\<close>, 4000 spaces, \<open>b\<close> has nothing to trim; cut
  at 4000 code units it ends in a space.
\<close>

theorem sanitizeInput_trailing_ws_counterexample:
  "\<not> (length (sanitizeInput (JStr long_text)) \<le> 4000
      \<and> no_leading_ws (sanitizeInput (JStr long_text))
      \<and> no_trailing_ws (sanitizeInput (JStr long_text)))"
  unfolding sanitize_long_text by (simp add: no_trailing_ws_def is_ws_def)

text \<open>
  C3 (amended). For every string the output has at most 4000 code units and no leading
  whitespace; it has no trailing whitespace either whenever the trimmed string has at
  most 4000 code units, that is whenever nothing is cut off.
\<close>

theorem sanitizeInput_bounds:
  "length (sanitizeInput (JStr s)) \<le> 4000
   \<and> no_leading_ws (sanitizeInput (JStr s))
   \<and> (length (trim s) \<le> 4000 \<longrightarrow> no_trailing_ws (sanitizeInput (JStr s)))"
  using length_sanitizeInput[of "JStr s"] no_leading_ws_sanitizeInput[of "JStr s"]
    no_trailing_ws_trim[of s] by simp

theorem sanitizeInput_bounds_witness:
  "length (trim (js ''  hi there  '')) \<le> 4000
   \<and> sanitizeInput (JStr (js ''  hi there  '')) = js ''hi there''
   \<and> length (sanitizeInput (JStr (js ''  hi there  ''))) \<le> 4000
   \<and> no_leading_ws (sanitizeInput (JStr (js ''  hi there  '')))
   \<and> no_trailing_ws (sanitizeInput (JStr (js ''  hi there  '')))"
  using sanitizeInput_bounds[of "js ''  hi there  ''"]
  by (simp add: js_def trim_def is_ws_def)

text \<open>
  C4 (as stated, refuted). Sanitizing the same text twice drops the 3999 spaces that the
  first pass left at the end.
\<close>

theorem sanitizeInput_idempotent_counterexample:
  "sanitizeInput (JStr (sanitizeInput (JStr long_text))) \<noteq> sanitizeInput (JStr long_text)"
  unfolding sanitize_long_text by (simp add: trim_replicate_ws is_ws_def)

text \<open>
  C4 (amended). Sanitizing the Sanitizer's output gives it back unchanged exactly when
  that output does not end in whitespace; this is so for every input that is not a
  string and for every string whose trimmed form has at most 4000 code units.
\<close>

theorem sanitizeInput_idempotent:
  "(sanitizeInput (JStr (sanitizeInput x)) = sanitizeInput x
      \<longleftrightarrow> no_trailing_ws (sanitizeInput x))
   \<and> ((\<forall>s. x = JStr s \<longrightarrow> length (trim s) \<le> 4000)
      \<longrightarrow> sanitizeInput (JStr (sanitizeInput x)) = sanitizeInput x)"
proof (intro conjI impI)
  show "sanitizeInput (JStr (sanitizeInput x)) = sanitizeInput x
      \<longleftrightarrow> no_trailing_ws (sanitizeInput x)"
    by (rule sanitize_twice_iff)
next
  assume short: "\<forall>s. x = JStr s \<longrightarrow> length (trim s) \<le> 4000"
  have "no_trailing_ws (sanitizeInput x)"
  proof (cases x)
    case (JStr s)
    with short have "length (trim s) \<le> 4000" by simp
    then show ?thesis using JStr no_trailing_ws_trim[of s] by simp
  qed (simp_all add: no_trailing_ws_def)
  then show "sanitizeInput (JStr (sanitizeInput x)) = sanitizeInput x"
    by (rule sanitize_twice_iff[THEN iffD2])
qed

theorem sanitizeInput_idempotent_witness:
  "length (trim (js '' ciao '')) \<le> 4000
   \<and> no_trailing_ws (sanitizeInput (JStr (js '' ciao '')))
   \<and> sanitizeInput (JStr (sanitizeInput (JStr (js '' ciao '')))) = sanitizeInput (JStr (js '' ciao ''))
   \<and> sanitizeInput (JStr (js '' ciao '')) = js ''ciao''"
proof -
  have short: "length (trim (js '' ciao '')) \<le> 4000"
    by (simp add: js_def trim_def is_ws_def)
  have out: "sanitizeInput (JStr (js '' ciao '')) = js ''ciao''"
    by (simp add: js_def trim_def is_ws_def)
  from short have "\<forall>s. JStr (js '' ciao '') = JStr s \<longrightarrow> length (trim s) \<le> 4000"
    by simp
  with sanitizeInput_idempotent[of "JStr (js '' ciao '')"]
  have "sanitizeInput (JStr (sanitizeInput (JStr (js '' ciao '')))) = sanitizeInput (JStr (js '' ciao ''))
        \<and> no_trailing_ws (sanitizeInput (JStr (js '' ciao '')))"
    by blast
  with short out show ?thesis by simp
qed

section \<open>Properties of the Conversation Validator\<close>


lemma get_prop_Inl: "get_prop v k = Inl e \<Longrightarrow> \<exists>t. e = TypeError t"
  by (cases v) (auto simp add: cannot_read_def)

lemma get_prop_JObj [simp]: "get_prop (JObj kvs) k = Inr (own_prop k (JObj kvs))"
  by simp

lemma valid_message_not_null: "valid_message m \<Longrightarrow> get_prop m k = Inr (own_prop k m)"
  by (cases m) (auto simp add: valid_message_def)

lemma check_each_valid:
  "(\<forall>m \<in> set ms. valid_message m) \<Longrightarrow> check_each ms = Inr True"
proof (induction ms)
  case Nil
  show ?case by simp
next
  case (Cons m ms)
  then have v: "valid_message m" and rest: "check_each ms = Inr True" by simp_all
  from v show ?case
    by (auto simp add: valid_message_not_null[OF v] rest valid_message_def)
qed



lemma check_each_errors:
  "check_each ms = Inl e \<Longrightarrow> e = MalformedMessage \<or> e = InvalidRole \<or> (\<exists>t. e = TypeError t)"
proof (induction ms)
  case Nil
  then show ?case by simp
next
  case (Cons a ms)
  then show ?case
    by (auto split: sum.splits if_splits dest: get_prop_Inl)
qed

lemma TooManyMessages_distinct:
  "TooManyMessages \<noteq> MalformedMessage" "TooManyMessages \<noteq> InvalidRole"
  "TooManyMessages \<noteq> TypeError t" "TooManyMessages \<noteq> EmptyConversation"
  "TooManyMessages \<noteq> InvalidFormat"
  by (simp_all add: TooManyMessages_def MalformedMessage_def InvalidRole_def
      EmptyConversation_def InvalidFormat_def js_def)

lemma check_each_not_too_many: "check_each ms \<noteq> Inl TooManyMessages"
  using check_each_errors[of ms TooManyMessages] TooManyMessages_distinct by auto

lemma validate_too_many_iff:
  "validateMessages v = Inl TooManyMessages \<longleftrightarrow> (\<exists>ms. v = JArr ms \<and> 50 < length ms)"
proof (cases v)
  case (JArr ms)
  then show ?thesis
    using check_each_not_too_many[of ms] TooManyMessages_distinct(4)
    by (auto simp del: length_0_conv)
qed (use TooManyMessages_distinct(5) in auto)

text \<open>
  C9. The validator fails with \<open>TooManyMessages\<close> exactly on an array of more than 50
  elements; a conversation of exactly 50 valid messages is accepted, and one of 51 or
  more is rejected with \<open>TooManyMessages\<close>.
\<close>

theorem validateMessages_length_bound:
  "(validateMessages v = Inl TooManyMessages \<longleftrightarrow> (\<exists>ms. v = JArr ms \<and> 50 < length ms))
   \<and> (length ms = 50 \<longrightarrow> (\<forall>m \<in> set ms. valid_message m)
        \<longrightarrow> validateMessages (JArr ms) = Inr True)
   \<and> (51 \<le> length ms \<longrightarrow> validateMessages (JArr ms) = Inl TooManyMessages)"
proof (intro conjI impI)
  show "validateMessages v = Inl TooManyMessages \<longleftrightarrow> (\<exists>ms. v = JArr ms \<and> 50 < length ms)"
    by (rule validate_too_many_iff)
next
  assume "length ms = 50" and "\<forall>m \<in> set ms. valid_message m"
  then show "validateMessages (JArr ms) = Inr True"
    by (simp add: check_each_valid)
next
  assume "51 \<le> length ms"
  then show "validateMessages (JArr ms) = Inl TooManyMessages"
    by auto
qed

lemma valid_hello: "valid_message hello"
  by (simp add: valid_message_def hello_def js_def)

theorem validateMessages_length_bound_witness:
  "validateMessages (JArr (replicate 50 hello)) = Inr True
   \<and> validateMessages (JArr (replicate 51 hello)) = Inl TooManyMessages"
proof -
  have a: "length (replicate 50 hello) = 50" by simp
  have b: "\<forall>m \<in> set (replicate 50 hello). valid_message m" by (simp add: valid_hello)
  have c: "51 \<le> length (replicate 51 hello)" by simp
  from validateMessages_length_bound[of "JArr (replicate 51 hello)" "replicate 50 hello"] a b
  have 1: "validateMessages (JArr (replicate 50 hello)) = Inr True" by blast
  from validateMessages_length_bound[of "JArr (replicate 51 hello)" "replicate 51 hello"] c
  have 2: "validateMessages (JArr (replicate 51 hello)) = Inl TooManyMessages" by blast
  from 1 2 show ?thesis by simp
qed




section \<open>Properties of the chat handler\<close>

lemma count_messages_JObj:
  "\<exists>n. count_messages (JObj kvs) = Inr n"
  by (simp add: count_messages_def Let_def)

lemma logMetrics_JObj:
  "\<exists>m. logMetrics render now \<lparr>req_ip = a, req_body = JObj kvs\<rparr> elapsed ok = Inr m"
  using count_messages_JObj[of kvs] by (auto simp add: logMetrics_def)

lemma fetched_chat:
  "fetched (chat rt cfg req) =
     (case prepare cfg (req_body req) of Calls c \<Rightarrow> [c] | _ \<Rightarrow> [])"
  by (simp add: chat_def try_block_def split: prepared.splits sum.splits prod.splits)

lemma destructure_JObj:
  "destructure (JObj kvs) =
     Inr (own_prop (js ''messages'') (JObj kvs), own_prop (js ''systemPrompt'') (JObj kvs))"
  by simp

lemma destructure_Inr:
  "destructure body = Inr (m, p) \<Longrightarrow>
     m = own_prop (js ''messages'') body \<and> p = own_prop (js ''systemPrompt'') body"
  by (cases body) auto

lemma prepare_Calls:
  assumes "prepare cfg body = Calls c"
  shows "\<exists>sanitized. request_body c =
           requestBody cfg sanitized (own_prop (js ''systemPrompt'') body)"
  using assms
  by (auto simp add: prepare_def split: sum.splits prod.splits if_splits dest!: destructure_Inr)

lemma prepare_falsy_messages:
  assumes "\<not> truthy (own_prop (js ''messages'') (JObj kvs))"
  shows "prepare cfg (JObj kvs) =
           Returns \<lparr>status = 400, json = ErrorJson (js ''Parametro messages mancante'') JUndefined\<rparr>"
  using assms by (simp add: prepare_def destructure_JObj del: destructure.simps own_prop.simps)

lemma chat_Returns:
  "prepare cfg (req_body req) = Returns r \<Longrightarrow>
     chat rt cfg req = \<lparr>outcome = Replied r, logged = [], fetched = []\<rparr>"
  by (simp add: chat_def try_block_def)

lemma catch_block_JObj:
  "\<exists>m. catch_block rt \<lparr>req_ip = a, req_body = JObj kvs\<rparr> e k = (Replied (error_reply rt e), [m])"
  using logMetrics_JObj[of "toISOString rt" "Date_now rt (k + 1)" a kvs "Date_now rt k - Date_now rt 0" False]
  by (auto simp add: catch_block_def)

lemma chat_Caught:
  assumes "try_block rt cfg \<lparr>req_ip = a, req_body = JObj kvs\<rparr> = (Caught e, ms, cs)"
  shows "\<exists>m. chat rt cfg \<lparr>req_ip = a, req_body = JObj kvs\<rparr> =
           \<lparr>outcome = Replied (error_reply rt e), logged = ms @ [m], fetched = cs\<rparr>"
  using assms catch_block_JObj[of rt a kvs e "1 + 2 * length ms"]
  by (auto simp add: chat_def)

lemma chat_Throws:
  assumes "prepare cfg (JObj kvs) = Throws e"
  shows "\<exists>m. chat rt cfg \<lparr>req_ip = a, req_body = JObj kvs\<rparr> =
           \<lparr>outcome = Replied (error_reply rt e), logged = [m], fetched = []\<rparr>"
proof -
  from assms have "try_block rt cfg \<lparr>req_ip = a, req_body = JObj kvs\<rparr> = (Caught e, [], [])"
    by (simp add: try_block_def)
  from chat_Caught[OF this] show ?thesis by simp
qed

lemma prepare_invalid:
  assumes "own_prop (js ''messages'') (JObj kvs) = v" and "truthy v"
    and "validateMessages v = Inl e"
  shows "prepare cfg (JObj kvs) = Throws e"
  using assms by (simp add: prepare_def destructure_JObj del: destructure.simps own_prop.simps)

lemma validator_errors_not_api:
  "\<not> str_includes (message EmptyConversation) (js ''API Error: 401'')"
  "\<not> str_includes (message EmptyConversation) (js ''API Error: 429'')"
  by (simp_all add: EmptyConversation_def js_def)

text \<open>
  Every failure of the validator takes the same road: one metrics record, no upstream
  call, and the reply the \<open>catch\<close> block chooses, whose status is never 400.
\<close>

lemma error_reply_status: "status (error_reply rt e) = 500 \<or> status (error_reply rt e) = 429"
  by (simp add: error_reply_def)

lemma chat_validation_failure:
  assumes "own_prop (js ''messages'') (JObj kvs) = v" and "truthy v"
    and "validateMessages v = Inl e"
  shows "\<exists>m. chat rt cfg \<lparr>req_ip = a, req_body = JObj kvs\<rparr> =
           \<lparr>outcome = Replied (error_reply rt e), logged = [m], fetched = []\<rparr>"
  by (rule chat_Throws[OF prepare_invalid[OF assms]])

text \<open>
  C1 (the code departs from it). The request \<open>{ "messages": [] }\<close>: the validator
  throws \<open>EmptyConversation\<close>, the \<open>catch\<close> block finds neither \<open>API Error: 401\<close> nor
  \<open>API Error: 429\<close> in the message, and the reply is 500 with the generic text; the
  validator's own message appears only as \<open>details\<close> in development.
\<close>

theorem chat_empty_conversation_replies_500:
  "validateMessages (JArr []) = Inl EmptyConversation
   \<and> outcome (chat rt cfg (request_of [(js ''messages'', JArr [])])) =
       Replied \<lparr>status = 500,
                json = ErrorJson (js ''Errore del server. Riprova tra poco.'')
                         (if NODE_ENV rt = JStr (js ''development'')
                          then JStr (message EmptyConversation) else JUndefined)\<rparr>"
proof -
  have v: "validateMessages (JArr []) = Inl EmptyConversation" by simp
  have p: "prepare cfg (JObj [(js ''messages'', JArr [])]) = Throws EmptyConversation"
    by (rule prepare_invalid[where v = "JArr []"]) simp_all
  have "outcome (chat rt cfg (request_of [(js ''messages'', JArr [])])) =
          Replied (error_reply rt EmptyConversation)"
    unfolding request_of_def using chat_Throws[OF p, of rt "js ''::1''"] by auto
  with v show ?thesis by (simp add: error_reply_def validator_errors_not_api)
qed

text \<open>
  C2 (the code departs from it). The request \<open>{}\<close>, with no \<open>messages\<close> field: the
  handler returns the 400 reply from inside the \<open>try\<close> block, before either call of
  \<open>logMetrics\<close>, so no metrics record is written.
\<close>

theorem chat_missing_messages_logs_nothing:
  "chat rt cfg (request_of []) =
     \<lparr>outcome = Replied \<lparr>status = 400,
                          json = ErrorJson (js ''Parametro messages mancante'') JUndefined\<rparr>,
      logged = [], fetched = []\<rparr>"
  unfolding request_of_def
  by (rule chat_Returns) (simp add: prepare_falsy_messages)

text \<open>
  C10. A \<open>messages\<close> field holding \<open>null\<close>, \<open>false\<close>, \<open>0\<close> or \<open>""\<close> gets the 400
  reply for a missing parameter; the validator, which would have failed each of these
  values with \<open>InvalidFormat\<close>, is never reached: nothing is thrown, logged or fetched.
\<close>

theorem chat_falsy_messages:
  assumes "map_of kvs (js ''messages'') = Some v"
    and "v = JNull \<or> v = JBool False \<or> v = JNum 0 \<or> v = JStr []"
  shows "chat rt cfg \<lparr>req_ip = a, req_body = JObj kvs\<rparr> =
           \<lparr>outcome = Replied \<lparr>status = 400,
                                json = ErrorJson (js ''Parametro messages mancante'') JUndefined\<rparr>,
            logged = [], fetched = []\<rparr>
         \<and> validateMessages v = Inl InvalidFormat"
proof -
  from assms have "\<not> truthy (own_prop (js ''messages'') (JObj kvs))" by auto
  then have "prepare cfg (req_body \<lparr>req_ip = a, req_body = JObj kvs\<rparr>) =
      Returns \<lparr>status = 400, json = ErrorJson (js ''Parametro messages mancante'') JUndefined\<rparr>"
    by (simp add: prepare_falsy_messages)
  then have "chat rt cfg \<lparr>req_ip = a, req_body = JObj kvs\<rparr> =
           \<lparr>outcome = Replied \<lparr>status = 400,
                                json = ErrorJson (js ''Parametro messages mancante'') JUndefined\<rparr>,
            logged = [], fetched = []\<rparr>"
    by (rule chat_Returns)
  moreover from assms(2) have "validateMessages v = Inl InvalidFormat" by auto
  ultimately show ?thesis by simp
qed

theorem chat_falsy_messages_witness:
  "chat (mocked gateway_429) default_config (request_of [(js ''messages'', JStr [])]) =
     \<lparr>outcome = Replied \<lparr>status = 400,
                          json = ErrorJson (js ''Parametro messages mancante'') JUndefined\<rparr>,
      logged = [], fetched = []\<rparr>
   \<and> validateMessages (JStr []) = Inl InvalidFormat"
  unfolding request_of_def
  by (rule chat_falsy_messages) simp_all


lemma fetched_request_body:
  assumes "c \<in> set (fetched (chat rt cfg req))"
  shows "\<exists>sanitized. request_body c =
           requestBody cfg sanitized (own_prop (js ''systemPrompt'') (req_body req))"
proof -
  from assms have "prepare cfg (req_body req) = Calls c"
    by (auto simp add: fetched_chat split: prepared.splits)
  then show ?thesis by (rule prepare_Calls)
qed

lemma sanitize_each_valid:
  "(\<forall>m \<in> set ms. valid_message m) \<Longrightarrow> \<exists>out. sanitize_each ms = Inr out"
proof (induction ms)
  case Nil
  show ?case by simp
next
  case (Cons m ms)
  then obtain out where "sanitize_each ms = Inr out" by auto
  moreover from Cons.prems have "valid_message m" by simp
  ultimately show ?case by (simp add: valid_message_not_null)
qed

lemma prepare_valid:
  assumes "own_prop (js ''messages'') (JObj kvs) = JArr ms"
    and "ms \<noteq> []" and "length ms \<le> 50" and "\<forall>m \<in> set ms. valid_message m"
  shows "\<exists>sanitized. prepare cfg (JObj kvs) =
           Calls \<lparr>url = ANTHROPIC_API_URL cfg, x_api_key = ANTHROPIC_API_KEY cfg,
                  anthropic_version = js ''2023-06-01'',
                  request_body = requestBody cfg sanitized
                     (own_prop (js ''systemPrompt'') (JObj kvs))\<rparr>"
proof -
  from assms(2,3,4) have v: "validateMessages (JArr ms) = Inr True"
    by (simp add: check_each_valid)
  from assms(4) obtain out where s: "sanitizedMessages (JArr ms) = Inr out"
    using sanitize_each_valid by auto
  have "prepare cfg (JObj kvs) =
           Calls \<lparr>url = ANTHROPIC_API_URL cfg, x_api_key = ANTHROPIC_API_KEY cfg,
                  anthropic_version = js ''2023-06-01'',
                  request_body = requestBody cfg out
                     (own_prop (js ''systemPrompt'') (JObj kvs))\<rparr>"
    by (simp add: prepare_def destructure_JObj assms(1) v s
        del: destructure.simps own_prop.simps validateMessages.simps sanitizedMessages.simps)
  then show ?thesis by blast
qed

lemma prepare_plain:
  "\<exists>c. prepare default_config (req_body plain_request) = Calls c"
proof -
  have "own_prop (js ''messages'') (JObj [(js ''messages'', JArr [hello])]) = JArr [hello]"
    by (simp add: js_def)
  from prepare_valid[OF this, of default_config] valid_hello
  show ?thesis by (auto simp add: plain_request_def request_of_def)
qed

lemma prepare_blank_prompt:
  "\<exists>c. prepare default_config (req_body blank_prompt_request) = Calls c
       \<and> system (request_body c) = None"
proof -
  let ?kvs = "[(js ''messages'', JArr [hello]), (js ''systemPrompt'', JStr [])]"
  have m: "own_prop (js ''messages'') (JObj ?kvs) = JArr [hello]"
    by (simp add: js_def)
  have p: "own_prop (js ''systemPrompt'') (JObj ?kvs) = JStr []"
    by (simp add: js_def)
  from prepare_valid[OF m, of default_config] valid_hello
  obtain sanitized where "prepare default_config (JObj ?kvs) =
      Calls \<lparr>url = ANTHROPIC_API_URL default_config, x_api_key = ANTHROPIC_API_KEY default_config,
             anthropic_version = js ''2023-06-01'',
             request_body = requestBody default_config sanitized (JStr [])\<rparr>"
    unfolding p by auto
  then show ?thesis
    by (simp add: blank_prompt_request_def request_of_def requestBody_def)
qed

lemma prepare_override:
  "\<exists>c. prepare default_config (req_body override_request) = Calls c"
proof -
  let ?kvs = "[(js ''messages'', JArr [hello, hello]),
                 (js ''model'', JStr (js ''other-model'')),
                 (js ''max_tokens'', JNum 999999),
                 (js ''systemPrompt'', JStr (js '' be brief ''))]"
  have "own_prop (js ''messages'') (JObj ?kvs) = JArr [hello, hello]"
    by (simp add: js_def)
  from prepare_valid[OF this, of default_config] valid_hello
  show ?thesis by (auto simp add: override_request_def request_of_def)
qed

text \<open>
  C7 (as stated, refuted). A request that supplies \<open>systemPrompt: ""\<close> is relayed
  without a \<open>system\<close> field: the guard is \<open>if (systemPrompt)\<close>, and the empty string
  is falsy.
\<close>

theorem blank_system_prompt_counterexample:
  "own_prop (js ''systemPrompt'') (req_body blank_prompt_request) = JStr []
   \<and> map (system \<circ> request_body)
        (fetched (chat (mocked gateway_429) default_config blank_prompt_request)) = [None]"
proof -
  have "own_prop (js ''systemPrompt'') (req_body blank_prompt_request) = JStr []"
    by (simp add: blank_prompt_request_def request_of_def js_def)
  moreover from prepare_blank_prompt
  have "map (system \<circ> request_body)
        (fetched (chat (mocked gateway_429) default_config blank_prompt_request)) = [None]"
    by (auto simp add: fetched_chat)
  ultimately show ?thesis by simp
qed

text \<open>
  C7 (amended). The upstream request carries a \<open>system\<close> field if and only if the
  \<open>systemPrompt\<close> of the request body is truthy (supplied, and not \<open>null\<close>, \<open>false\<close>,
  \<open>0\<close> or the empty string); the field then equals the sanitized \<open>systemPrompt\<close>, and
  otherwise it is absent.
\<close>

theorem upstream_system_field:
  assumes "c \<in> set (fetched (chat rt cfg req))"
  shows "(system (request_body c) \<noteq> None
            \<longleftrightarrow> truthy (own_prop (js ''systemPrompt'') (req_body req)))
         \<and> (truthy (own_prop (js ''systemPrompt'') (req_body req))
            \<longrightarrow> system (request_body c)
                  = Some (sanitizeInput (own_prop (js ''systemPrompt'') (req_body req))))"
  using fetched_request_body[OF assms] by (auto simp add: requestBody_def Let_def split: if_splits)

theorem upstream_system_field_witness:
  "fetched (chat (mocked gateway_429) default_config override_request) \<noteq> []
   \<and> truthy (own_prop (js ''systemPrompt'') (req_body override_request))
   \<and> system (request_body (hd (fetched (chat (mocked gateway_429) default_config override_request))))
       = Some (js ''be brief'')"
proof -
  let ?cs = "fetched (chat (mocked gateway_429) default_config override_request)"
  have ne: "?cs \<noteq> []"
    using prepare_override by (auto simp add: fetched_chat)
  then have mem: "hd ?cs \<in> set ?cs" by simp
  have sp: "own_prop (js ''systemPrompt'') (req_body override_request) = JStr (js '' be brief '')"
    by (simp add: override_request_def request_of_def js_def)
  have out: "sanitizeInput (JStr (js '' be brief '')) = js ''be brief''"
    by (simp add: js_def trim_def is_ws_def)
  from upstream_system_field[OF mem] sp out
  have "system (request_body (hd ?cs)) = Some (js ''be brief'')" by (simp add: js_def)
  with ne sp show ?thesis by (simp add: js_def)
qed

text \<open>
  C8. Whatever two requests reach the upstream service under one configuration, the
  \<open>model\<close> and \<open>max_tokens\<close> of their upstream requests are the configuration's
  \<open>MODEL\<close> and \<open>MAX_TOKENS\<close>, hence the same for both; nothing in a request body
  changes them.
\<close>

theorem upstream_model_from_config:
  assumes "c1 \<in> set (fetched (chat rt1 cfg req1))"
    and "c2 \<in> set (fetched (chat rt2 cfg req2))"
  shows "model (request_body c1) = MODEL cfg
         \<and> max_tokens (request_body c1) = MAX_TOKENS cfg
         \<and> model (request_body c2) = model (request_body c1)
         \<and> max_tokens (request_body c2) = max_tokens (request_body c1)"
  using fetched_request_body[OF assms(1)] fetched_request_body[OF assms(2)]
  by (auto simp add: requestBody_def Let_def)

theorem upstream_model_from_config_witness:
  "fetched (chat (mocked gateway_429) default_config plain_request) \<noteq> []
   \<and> fetched (chat (mocked (FetchRejects (Error []))) default_config override_request) \<noteq> []
   \<and> own_prop (js ''model'') (req_body override_request) = JStr (js ''other-model'')
   \<and> model (request_body (hd (fetched
        (chat (mocked (FetchRejects (Error []))) default_config override_request))))
       = js ''claude-sonnet-4-20250514''
   \<and> max_tokens (request_body (hd (fetched
        (chat (mocked (FetchRejects (Error []))) default_config override_request))))
       = 1024"
proof -
  let ?c1 = "fetched (chat (mocked gateway_429) default_config plain_request)"
  let ?c2 = "fetched (chat (mocked (FetchRejects (Error []))) default_config override_request)"
  have ne1: "?c1 \<noteq> []" using prepare_plain by (auto simp add: fetched_chat)
  have ne2: "?c2 \<noteq> []" using prepare_override by (auto simp add: fetched_chat)
  have m1: "hd ?c1 \<in> set ?c1" using ne1 by simp
  have m2: "hd ?c2 \<in> set ?c2" using ne2 by simp
  have ov: "own_prop (js ''model'') (req_body override_request) = JStr (js ''other-model'')"
    by (simp add: override_request_def request_of_def js_def)
  from upstream_model_from_config[OF m2 m1]
  have "model (request_body (hd ?c2)) = MODEL default_config"
    and "max_tokens (request_body (hd ?c2)) = MAX_TOKENS default_config"
    by simp_all
  then have "model (request_body (hd ?c2)) = js ''claude-sonnet-4-20250514''"
    and "max_tokens (request_body (hd ?c2)) = 1024"
    by (simp_all add: default_config_def)
  with ne1 ne2 ov show ?thesis by simp
qed

lemma try_block_receive_error:
  assumes "prepare cfg (req_body req) = Calls c" and "receive rt c = Inl e"
  shows "try_block rt cfg req = (Caught e, [], [c])"
  using assms by (simp add: try_block_def)

lemma try_block_bad_data:
  assumes "prepare cfg (JObj kvs) = Calls c" and "receive rt c = Inr data"
    and "chat_json data = Inl e"
  shows "\<exists>m. try_block rt cfg \<lparr>req_ip = a, req_body = JObj kvs\<rparr> = (Caught e, [m], [c])"
  using assms logMetrics_JObj[of "toISOString rt" "Date_now rt 2" a kvs
      "Date_now rt 1 - Date_now rt 0" True]
  by (auto simp add: try_block_def)

lemma api_error_429_includes:
  "str_includes (message (api_error rt 429 d)) (js ''API Error: 429'')"
  by (simp add: api_error_def js_def)

lemma api_error_429_includes_401:
  "str_includes (message (api_error rt 429 d)) (js ''API Error: 401'')
     \<longleftrightarrow> str_includes (JSON_stringify rt d) (js ''API Error: 401'')"
  by (simp add: api_error_def js_def)

lemma receive_429_json:
  "fetch rt c = FetchResponse 429 (Inr d) \<Longrightarrow> receive rt c = Inl (api_error rt 429 d)"
  by (simp add: receive_def response_ok_def)

lemma chat_upstream_429_json:
  assumes "prepare cfg (JObj kvs) = Calls c"
    and "fetch rt c = FetchResponse 429 (Inr d)"
  shows "outcome (chat rt cfg \<lparr>req_ip = a, req_body = JObj kvs\<rparr>) =
           Replied
            (if str_includes (JSON_stringify rt d) (js ''API Error: 401'')
             then \<lparr>status = 500,
                    json = ErrorJson (js ''Errore di autenticazione con il servizio AI'') JUndefined\<rparr>
             else \<lparr>status = 429,
                    json = ErrorJson (js ''Troppi richieste al servizio AI. Riprova tra poco.'')
                             JUndefined\<rparr>)"
proof -
  have "try_block rt cfg \<lparr>req_ip = a, req_body = JObj kvs\<rparr>
          = (Caught (api_error rt 429 d), [], [c])"
    using assms by (simp add: try_block_receive_error receive_429_json)
  from chat_Caught[OF this]
  have "outcome (chat rt cfg \<lparr>req_ip = a, req_body = JObj kvs\<rparr>)
          = Replied (error_reply rt (api_error rt 429 d))"
    by auto
  then show ?thesis
    by (simp add: error_reply_def api_error_429_includes api_error_429_includes_401)
qed

lemma prepare_Calls_JObj: "prepare cfg body = Calls c \<Longrightarrow> \<exists>kvs. body = JObj kvs"
  by (cases body) (simp_all add: prepare_def)

text \<open>
  C6 (as stated, refuted). The upstream answers 429 with a body that is not JSON.
  \<open>response.json()\<close> rejects inside the \<open>!response.ok\<close> branch, so the
  \<open>API Error: 429\<close> error is never built; the \<open>catch\<close> block sees the parser's
  message and replies 500.
\<close>

theorem upstream_429_unparsed_counterexample:
  "outcome (chat (mocked gateway_429) default_config plain_request) =
     Replied \<lparr>status = 500,
              json = ErrorJson (js ''Errore del server. Riprova tra poco.'') JUndefined\<rparr>"
proof -
  let ?e = "SyntaxError (js ''Unexpected token < in JSON at position 0'')"
  obtain c where c: "prepare default_config (req_body plain_request) = Calls c"
    using prepare_plain by blast
  have "receive (mocked gateway_429) c = Inl ?e"
    by (simp add: receive_def mocked_def gateway_429_def response_ok_def)
  with c have "try_block (mocked gateway_429) default_config plain_request = (Caught ?e, [], [c])"
    by (rule try_block_receive_error)
  then have "outcome (chat (mocked gateway_429) default_config plain_request)
      = Replied (error_reply (mocked gateway_429) ?e)"
    using chat_Caught[of "mocked gateway_429" default_config "js ''::1''"
        "[(js ''messages'', JArr [hello])]" ?e "[]" "[c]"]
    by (auto simp add: plain_request_def request_of_def)
  moreover have "error_reply (mocked gateway_429) ?e =
      \<lparr>status = 500, json = ErrorJson (js ''Errore del server. Riprova tra poco.'') JUndefined\<rparr>"
    by (simp add: error_reply_def mocked_def js_def)
  ultimately show ?thesis by simp
qed

text \<open>
  C6 (amended). When the upstream service answers a call with status 429 and a body
  that parses as JSON, and the serialised body does not contain the text
  \<open>API Error: 401\<close>, the endpoint replies with status 429 and the retry-later message.
\<close>

theorem upstream_429_relayed:
  assumes "c \<in> set (fetched (chat rt cfg req))"
    and "fetch rt c = FetchResponse 429 (Inr d)"
    and "\<not> str_includes (JSON_stringify rt d) (js ''API Error: 401'')"
  shows "outcome (chat rt cfg req) =
           Replied \<lparr>status = 429,
                    json = ErrorJson (js ''Troppi richieste al servizio AI. Riprova tra poco.'')
                             JUndefined\<rparr>"
proof -
  from assms(1) have p: "prepare cfg (req_body req) = Calls c"
    by (auto simp add: fetched_chat split: prepared.splits)
  then obtain kvs where "req_body req = JObj kvs"
    using prepare_Calls_JObj by blast
  then have req: "req = \<lparr>req_ip = req_ip req, req_body = JObj kvs\<rparr>" by simp
  from p \<open>req_body req = JObj kvs\<close> have "prepare cfg (JObj kvs) = Calls c" by simp
  from chat_upstream_429_json[OF this assms(2), of "req_ip req"] assms(3) req
  show ?thesis by simp
qed

theorem upstream_429_relayed_witness:
  "fetched (chat (mocked limited_reply) default_config plain_request) \<noteq> []
   \<and> outcome (chat (mocked limited_reply) default_config plain_request) =
       Replied \<lparr>status = 429,
                json = ErrorJson (js ''Troppi richieste al servizio AI. Riprova tra poco.'')
                         JUndefined\<rparr>"
proof -
  let ?cs = "fetched (chat (mocked limited_reply) default_config plain_request)"
  have ne: "?cs \<noteq> []" using prepare_plain by (auto simp add: fetched_chat)
  then have mem: "hd ?cs \<in> set ?cs" by simp
  have f: "fetch (mocked limited_reply) (hd ?cs) = FetchResponse 429 (Inr (JObj []))"
    by (simp add: mocked_def limited_reply_def)
  have n: "\<not> str_includes (JSON_stringify (mocked limited_reply) (JObj [])) (js ''API Error: 401'')"
    by (simp add: mocked_def js_def)
  from upstream_429_relayed[OF mem f n] ne show ?thesis by simp
qed

text \<open>
  An upstream 200 whose body has no \<open>content\<close>: the success record is written, then
  \<open>data.content[0]\<close> throws and the \<open>catch\<close> block writes a second record for the
  same request.
\<close>

lemma chat_empty_reply_logs_twice:
  "length (logged (chat (mocked empty_reply) default_config plain_request)) = 2"
proof -
  obtain c where c: "prepare default_config (JObj [(js ''messages'', JArr [hello])]) = Calls c"
    using prepare_plain by (auto simp add: plain_request_def request_of_def)
  have r: "receive (mocked empty_reply) c = Inr (JObj [])"
    by (simp add: receive_def mocked_def empty_reply_def response_ok_def)
  have "\<exists>e. chat_json (JObj []) = Inl e"
    by (simp add: chat_json_def first_text_def)
  then obtain e where "chat_json (JObj []) = Inl e" ..
  from try_block_bad_data[OF c r this, of "js ''::1''"]
  obtain m where "try_block (mocked empty_reply) default_config plain_request = (Caught e, [m], [c])"
    by (auto simp add: plain_request_def request_of_def)
  from chat_Caught[OF this[unfolded plain_request_def request_of_def]]
  show ?thesis by (auto simp add: plain_request_def request_of_def)
qed

end
